theory Spec2Isabelle
  imports Main
begin

section \<open>Data model of the gallery script\<close>

text \<open>
  The script \<^verbatim>\<open>script.js\<close> keeps two variables, \<^verbatim>\<open>images\<close> and
  \<^verbatim>\<open>currentIndex\<close>, and drives a handful of page elements. An image record is
  the JSON object the listing endpoint returns; the script reads three of its fields.
\<close>

record image_record =
  public_id :: string
  url :: string
  filename :: string

text \<open>
  One \<^verbatim>\<open>.thumbnail-container img\<close> of the reel. The number stands for the three
  texts built from \<^verbatim>\<open>index + 1\<close> (alt, title and the number label).
\<close>

record thumbnail =
  src :: string
  number :: nat
  selected :: bool

datatype request = GET_images | DELETE_image string | POST_upload string

text \<open>
  The variables of the script together with the part of the page it reads and writes:
  the thumbnails of the reel, the large image, the detail pane's \<^verbatim>\<open>hidden\<close> class,
  the navigation buttons, the file input and the upload button; and a log of the
  effects on the outside (alerts, console errors, network requests, reel scrolls).
  The elements the script looks up by id are taken to exist, and the thumbnails of the
  reel to be the only elements matching \<^verbatim>\<open>.thumbnail-container img\<close>.
\<close>

record gallery =
  images :: "image_record list"
  currentIndex :: int
  reel :: "thumbnail list"
  reelPlaceholder :: bool
  reelScrolls :: nat
  largeSrc :: string
  detailHidden :: bool
  prevDisabled :: bool
  nextDisabled :: bool
  files :: "string list"
  uploadDisabled :: bool
  uploadText :: string
  alerts :: "string list"
  console :: "string list"
  requests :: "request list"

text \<open>
  JavaScript exceptions. A handler either runs to its end or lets an exception escape;
  in both cases the assignments made so far stay.
\<close>

datatype exn = Error string | TypeError string | ReferenceError string

datatype outcome = Done gallery | Throws exn gallery

text \<open>
  What a \<^verbatim>\<open>fetch\<close> settles with: the promise rejects, or it resolves with a response
  whose \<^verbatim>\<open>ok\<close> flag and body are read. \<^verbatim>\<open>response.json()\<close> resolves with the
  parsed value or rejects.
\<close>

datatype 'a body = Json 'a | NotJson exn

datatype 'a reply = Rejected exn | Response bool "'a body"

section \<open>Helpers of the language\<close>

fun message :: "exn \<Rightarrow> string" where
  "message (Error m) = m"
| "message (TypeError m) = m"
| "message (ReferenceError m) = m"

text \<open>\<^verbatim>\<open>xs[i]\<close>: \<^verbatim>\<open>undefined\<close> outside the array.\<close>

definition js_index :: "'a list \<Rightarrow> int \<Rightarrow> 'a option" where
  "js_index xs i = (if 0 \<le> i \<and> i < int (length xs) then Some (xs ! nat i) else None)"

text \<open>
  \<^verbatim>\<open>xs.splice(i, 1)\<close>: a negative start counts from the end, a start beyond the
  end removes nothing.
\<close>

definition js_splice :: "'a list \<Rightarrow> int \<Rightarrow> 'a list" where
  "js_splice xs i =
     (let n = int (length xs);
          start = (if i < 0 then max (n + i) 0 else min i n)
      in take (nat start) xs @ drop (nat start + 1) xs)"

definition alert :: "string \<Rightarrow> gallery \<Rightarrow> gallery" where
  "alert msg s = s\<lparr>alerts := alerts s @ [msg]\<rparr>"

definition console_error :: "string \<Rightarrow> gallery \<Rightarrow> gallery" where
  "console_error label s = s\<lparr>console := console s @ [label]\<rparr>"

definition try_catch :: "outcome \<Rightarrow> (exn \<Rightarrow> gallery \<Rightarrow> outcome) \<Rightarrow> outcome" where
  "try_catch r h = (case r of Done s \<Rightarrow> Done s | Throws e s \<Rightarrow> h e s)"

text \<open>The finaliser runs on every exit; an exception of its own replaces the pending one.\<close>

definition try_finally :: "outcome \<Rightarrow> (gallery \<Rightarrow> outcome) \<Rightarrow> outcome" where
  "try_finally r f =
     (case r of
        Done s \<Rightarrow> f s
      | Throws e s \<Rightarrow> (case f s of Done s' \<Rightarrow> Throws e s' | Throws e' s' \<Rightarrow> Throws e' s'))"

definition and_then :: "outcome \<Rightarrow> (gallery \<Rightarrow> outcome) \<Rightarrow> outcome" where
  "and_then r k = (case r of Done s \<Rightarrow> k s | Throws e s \<Rightarrow> Throws e s)"

section \<open>Rendering\<close>

definition highlightCurrentImage :: "gallery \<Rightarrow> gallery" where
  "highlightCurrentImage s =
     s\<lparr>reel := map (\<lambda>(i, t). t\<lparr>selected := (int i = currentIndex s)\<rparr>) (enumerate 0 (reel s))\<rparr>"

definition makeThumbnail :: "nat \<Rightarrow> image_record \<Rightarrow> thumbnail" where
  "makeThumbnail index img = \<lparr>src = url img, number = index + 1, selected = False\<rparr>"

definition displayThumbnails :: "gallery \<Rightarrow> gallery" where
  "displayThumbnails s =
     highlightCurrentImage
       (s\<lparr>reelPlaceholder := (images s = []),
          reel := map (\<lambda>(index, img). makeThumbnail index img) (enumerate 0 (images s))\<rparr>)"

text \<open>
  \<^verbatim>\<open>showImage\<close> assigns \<^verbatim>\<open>currentIndex\<close> first; reading \<^verbatim>\<open>.url\<close> of
  \<^verbatim>\<open>images[index]\<close> throws a TypeError when the index is outside the list.
\<close>

definition showImage :: "gallery \<Rightarrow> int \<Rightarrow> outcome" where
  "showImage s index =
     (let s1 = s\<lparr>currentIndex := index\<rparr> in
      case js_index (images s1) index of
        None \<Rightarrow> Throws (TypeError ''Cannot read properties of undefined'') s1
      | Some img \<Rightarrow>
          (let s2 = s1\<lparr>largeSrc := url img\<rparr>;
               s3 = s2\<lparr>detailHidden := False\<rparr>;
               s4 = highlightCurrentImage s3;
               s5 = s4\<lparr>prevDisabled := (index = 0)\<rparr>
           in Done (s5\<lparr>nextDisabled := (index = int (length (images s5)) - 1)\<rparr>)))"

section \<open>Deleting the current image\<close>

definition deleteImage_catch :: "exn \<Rightarrow> gallery \<Rightarrow> outcome" where
  "deleteImage_catch e s =
     Done (alert ''Failed to delete. Try again.'' (console_error ''Deletion error:'' s))"

text \<open>The \<^verbatim>\<open>try\<close> block from the moment the DELETE request settles.\<close>

definition deleteImage_resume :: "gallery \<Rightarrow> 'a reply \<Rightarrow> outcome" where
  "deleteImage_resume s r =
     try_catch
       (case r of
          Rejected e \<Rightarrow> Throws e s
        | Response ok b \<Rightarrow>
            if \<not> ok then Throws (Error ''Deletion failed'') s
            else
              (let s1 = s\<lparr>images := js_splice (images s) (currentIndex s)\<rparr> in
               and_then
                 (if images s1 = [] then Done (s1\<lparr>detailHidden := True\<rparr>)
                  else
                    (let s2 = s1\<lparr>currentIndex :=
                                 min (currentIndex s1) (int (length (images s1)) - 1)\<rparr>
                     in showImage s2 (currentIndex s2)))
                 (\<lambda>s3. Done (displayThumbnails s3))))
       deleteImage_catch"

text \<open>
  The handler: the guard, then the lookup of \<^verbatim>\<open>images[currentIndex].public_id\<close>
  (before the \<^verbatim>\<open>try\<close>), then the request. The answer to the confirmation prompt and
  the settlement of the request are arguments; no other handler runs in between.
\<close>

definition deleteImage :: "gallery \<Rightarrow> bool \<Rightarrow> 'a reply \<Rightarrow> outcome" where
  "deleteImage s confirmed r =
     (if images s = [] \<or> currentIndex s < 0 \<or> \<not> confirmed then Done s
      else
        (case js_index (images s) (currentIndex s) of
           None \<Rightarrow> Throws (TypeError ''Cannot read properties of undefined'') s
         | Some img \<Rightarrow>
             deleteImage_resume (s\<lparr>requests := requests s @ [DELETE_image (public_id img)]\<rparr>) r))"

section \<open>Fetching the list\<close>

definition fetchImages_catch :: "exn \<Rightarrow> gallery \<Rightarrow> outcome" where
  "fetchImages_catch e s =
     Done (alert ''Failed to load images. Refresh page.'' (console_error ''Fetch error:'' s))"

definition fetchImages_start :: "gallery \<Rightarrow> gallery" where
  "fetchImages_start s = s\<lparr>requests := requests s @ [GET_images]\<rparr>"

definition fetchImages_resume :: "gallery \<Rightarrow> image_record list reply \<Rightarrow> outcome" where
  "fetchImages_resume s r =
     try_catch
       (case r of
          Rejected e \<Rightarrow> Throws e s
        | Response ok b \<Rightarrow>
            if \<not> ok then Throws (Error ''Fetch failed'') s
            else
              (case b of
                 NotJson e \<Rightarrow> Throws e s
               | Json newImages \<Rightarrow>
                   (let s1 = (if length newImages > length (images s)
                              then (s\<lparr>currentIndex := int (length newImages) - 1\<rparr>)
                                     \<lparr>reelScrolls := reelScrolls s + 1\<rparr>
                              else s);
                        s2 = s1\<lparr>images := newImages\<rparr>;
                        s3 = displayThumbnails s2
                    in if images s3 = [] then Done (s3\<lparr>detailHidden := True\<rparr>)
                       else showImage s3 (currentIndex s3))))
       fetchImages_catch"

definition fetchImages :: "gallery \<Rightarrow> image_record list reply \<Rightarrow> outcome" where
  "fetchImages s r = fetchImages_resume (fetchImages_start s) r"

section \<open>Uploading a file\<close>

text \<open>
  The \<^verbatim>\<open>finally\<close> block of \<^verbatim>\<open>handleUpload\<close> names \<^verbatim>\<open>uploadBtn\<close>. The
  \<^verbatim>\<open>const uploadBtn\<close> of the script is declared inside the \<^verbatim>\<open>try\<close> block and
  is out of scope there; neither \<^verbatim>\<open>handleUpload\<close> nor the enclosing callback
  declares the name, so it is looked up on the page's global object, which is not part
  of the script. The lookup is a parameter: no such global, a global that is the upload
  button, or some other object.
\<close>

datatype global_binding = Unbound | UploadButton | OtherObject

definition handleUpload_finally :: "global_binding \<Rightarrow> gallery \<Rightarrow> outcome" where
  "handleUpload_finally g s =
     (case g of
        Unbound \<Rightarrow> Throws (ReferenceError ''uploadBtn is not defined'') s
      | UploadButton \<Rightarrow> Done ((s\<lparr>uploadDisabled := False\<rparr>)\<lparr>uploadText := ''Upload''\<rparr>)
      | OtherObject \<Rightarrow> Done s)"

definition handleUpload_catch :: "exn \<Rightarrow> gallery \<Rightarrow> outcome" where
  "handleUpload_catch e s =
     Done (alert (''Failed to upload: '' @ message e) (console_error ''Upload error:'' s))"

text \<open>
  The body of a failed upload is a JSON object whose \<^verbatim>\<open>error\<close> field may be
  missing. On success \<^verbatim>\<open>fetchImages()\<close> is called and not awaited: its request is
  issued, its continuation is a later event. \<^verbatim>\<open>e.preventDefault()\<close> acts on the
  event only and has no counterpart here.
\<close>

definition handleUpload :: "global_binding \<Rightarrow> gallery \<Rightarrow> string option reply \<Rightarrow> outcome" where
  "handleUpload g s r =
     (case files s of
        [] \<Rightarrow> Done (alert ''Please select a file to upload'' s)
      | file # rest \<Rightarrow>
          try_finally
            (try_catch
               (let s1 = s\<lparr>uploadDisabled := True\<rparr>;
                    s2 = s1\<lparr>uploadText := ''Uploading...''\<rparr>;
                    s3 = s2\<lparr>requests := requests s2 @ [POST_upload file]\<rparr>
                in case r of
                     Rejected e \<Rightarrow> Throws e s3
                   | Response ok b \<Rightarrow>
                       if \<not> ok then
                         (case b of
                            NotJson e \<Rightarrow> Throws e s3
                          | Json errorData \<Rightarrow>
                              Throws (Error (case errorData of
                                               None \<Rightarrow> ''Upload failed''
                                             | Some m \<Rightarrow> if m = [] then ''Upload failed'' else m)) s3)
                       else Done (fetchImages_start (s3\<lparr>files := []\<rparr>)))
               handleUpload_catch)
            (handleUpload_finally g))"

section \<open>Navigation\<close>

text \<open>The click handlers of the previous and next buttons, and the key handler.\<close>

definition prevBtn_click :: "gallery \<Rightarrow> outcome" where
  "prevBtn_click s = (if currentIndex s > 0 then showImage s (currentIndex s - 1) else Done s)"

definition nextBtn_click :: "gallery \<Rightarrow> outcome" where
  "nextBtn_click s =
     (if currentIndex s < int (length (images s)) - 1 then showImage s (currentIndex s + 1)
      else Done s)"

datatype key = ArrowLeft | ArrowRight | Delete bool | OtherKey

definition keydown :: "gallery \<Rightarrow> key \<Rightarrow> bool \<Rightarrow> 'a reply \<Rightarrow> outcome" where
  "keydown s k confirmed r =
     (if images s = [] then Done s
      else
        (case k of
           ArrowLeft \<Rightarrow> (if currentIndex s > 0 then showImage s (currentIndex s - 1) else Done s)
         | ArrowRight \<Rightarrow>
             (if currentIndex s < int (length (images s)) - 1
              then showImage s (currentIndex s + 1) else Done s)
         | Delete ctrlKey \<Rightarrow> (if ctrlKey then deleteImage s confirmed r else Done s)
         | OtherKey \<Rightarrow> Done s))"

section \<open>Events and reachable pages\<close>

text \<open>
  The handlers the script registers, as one dispatcher. A thumbnail exists only for a
  position of the reel. \<^verbatim>\<open>DeleteSettled\<close> is the continuation of
  \<^verbatim>\<open>deleteImage\<close> run on its own, for a DELETE request that settles after other
  handlers have run.
\<close>

datatype event =
    Poll "image_record list reply"
  | ThumbnailClick nat
  | PrevClick
  | NextClick
  | KeyDown key bool "unit reply"
  | DeleteClick bool "unit reply"
  | DeleteSettled "unit reply"
  | ChooseFiles "string list"
  | Submit "string option reply"
  | LargeImageError

definition dispatch :: "global_binding \<Rightarrow> gallery \<Rightarrow> event \<Rightarrow> outcome" where
  "dispatch g s ev =
     (case ev of
        Poll r \<Rightarrow> fetchImages s r
      | ThumbnailClick index \<Rightarrow>
          (if index < length (reel s) then showImage s (int index) else Done s)
      | PrevClick \<Rightarrow> prevBtn_click s
      | NextClick \<Rightarrow> nextBtn_click s
      | KeyDown k confirmed r \<Rightarrow> keydown s k confirmed r
      | DeleteClick confirmed r \<Rightarrow> deleteImage s confirmed r
      | DeleteSettled r \<Rightarrow> deleteImage_resume s r
      | ChooseFiles fs \<Rightarrow> Done (s\<lparr>files := fs\<rparr>)
      | Submit r \<Rightarrow> handleUpload g s r
      | LargeImageError \<Rightarrow>
          Done ((alert ''Image load failed. Refresh the page.'' s)\<lparr>detailHidden := True\<rparr>))"

text \<open>The page a handler leaves behind, whether it returned or threw.\<close>

definition after :: "outcome \<Rightarrow> gallery" where
  "after r = (case r of Done s \<Rightarrow> s | Throws e s \<Rightarrow> s)"

text \<open>
  The page when the script starts: the two variables as declared, no thumbnail yet,
  nothing logged.
\<close>

definition initial :: gallery where
  "initial =
     \<lparr>images = [], currentIndex = 0, reel = [], reelPlaceholder = False, reelScrolls = 0,
      largeSrc = [], detailHidden = False, prevDisabled = False, nextDisabled = False,
      files = [], uploadDisabled = False, uploadText = ''Upload'', alerts = [], console = [],
      requests = []\<rparr>"

inductive reachable :: "global_binding \<Rightarrow> gallery \<Rightarrow> bool" for g :: global_binding where
  reachable_initial: "reachable g initial"
| reachable_step: "reachable g s \<Longrightarrow> reachable g (after (dispatch g s ev))"

text \<open>The reel shows one thumbnail per image and the index is not negative.\<close>

definition rendered :: "gallery \<Rightarrow> bool" where
  "rendered s = (length (reel s) = length (images s) \<and> 0 \<le> currentIndex s)"

section \<open>Example pages\<close>

definition imgA :: image_record where
  "imgA = \<lparr>public_id = ''a'', url = ''/a.jpg'', filename = ''a.jpg''\<rparr>"

definition imgB :: image_record where
  "imgB = \<lparr>public_id = ''b'', url = ''/b.jpg'', filename = ''b.jpg''\<rparr>"

definition imgC :: image_record where
  "imgC = \<lparr>public_id = ''c'', url = ''/c.jpg'', filename = ''c.jpg''\<rparr>"

text \<open>The page after the first fetch returned three images: the third is selected.\<close>

definition gallery_ABC :: gallery where
  "gallery_ABC = after (fetchImages initial (Response True (Json [imgA, imgB, imgC])))"

text \<open>The same page after a later fetch returned the first image only.\<close>

definition gallery_A :: gallery where
  "gallery_A = after (fetchImages gallery_ABC (Response True (Json [imgA])))"

text \<open>The page with three images once the user has chosen a file.\<close>

definition gallery_file :: gallery where
  "gallery_file = gallery_ABC\<lparr>files := [''photo.png'']\<rparr>"

section \<open>Facts about the helpers\<close>

lemma js_index_in: "0 \<le> i \<Longrightarrow> i < int (length xs) \<Longrightarrow> js_index xs i = Some (xs ! nat i)"
  by (simp add: js_index_def)

lemma js_index_out: "int (length xs) \<le> i \<Longrightarrow> js_index xs i = None"
  by (simp add: js_index_def)

lemma js_splice_in:
  "0 \<le> i \<Longrightarrow> i < int (length xs) \<Longrightarrow>
     js_splice xs i = take (nat i) xs @ drop (Suc (nat i)) xs"
  by (simp add: js_splice_def Let_def min_def)

lemma try_catch_Done [simp]: "try_catch (Done s) h = Done s"
  by (simp add: try_catch_def)

lemma try_catch_Throws [simp]: "try_catch (Throws e s) h = h e s"
  by (simp add: try_catch_def)

lemma and_then_Done [simp]: "and_then (Done s) k = k s"
  by (simp add: and_then_def)

lemma and_then_Throws [simp]: "and_then (Throws e s) k = Throws e s"
  by (simp add: and_then_def)

lemma after_simps [simp]: "after (Done s) = s" "after (Throws e s) = s"
  by (simp_all add: after_def)

section \<open>Facts about rendering\<close>

lemma reel_highlight:
  "reel (highlightCurrentImage s) =
     map (\<lambda>(i, t). t\<lparr>selected := (int i = currentIndex s)\<rparr>) (enumerate 0 (reel s))"
  by (simp add: highlightCurrentImage_def)

lemma length_reel_highlight [simp]: "length (reel (highlightCurrentImage s)) = length (reel s)"
  by (simp add: reel_highlight)

lemma selected_highlight:
  "j < length (reel s) \<Longrightarrow>
     selected (reel (highlightCurrentImage s) ! j) = (int j = currentIndex s)"
  by (simp add: reel_highlight nth_enumerate_eq)

lemma map_selected_highlight:
  "map selected (reel (highlightCurrentImage s)) =
     map (\<lambda>j. int j = currentIndex s) [0..<length (reel s)]"
  by (rule nth_equalityI) (simp_all add: selected_highlight)

lemma filter_eq_upt: "k < n \<Longrightarrow> filter (\<lambda>j. j = k) [0..<n] = [k]"
  by (induction n) (auto simp: less_Suc_eq)

lemma count_selected_highlight:
  assumes "0 \<le> currentIndex s" and "currentIndex s < int (length (reel s))"
  shows "length (filter selected (reel (highlightCurrentImage s))) = 1"
proof -
  have "length (filter selected (reel (highlightCurrentImage s)))
      = length (filter id (map selected (reel (highlightCurrentImage s))))"
    by (simp add: filter_map comp_def)
  also have "\<dots> = length (filter (\<lambda>j. int j = currentIndex s) [0..<length (reel s)])"
    by (simp add: map_selected_highlight filter_map comp_def)
  also have "(\<lambda>j. int j = currentIndex s) = (\<lambda>j. j = nat (currentIndex s))"
    using assms by (auto simp: fun_eq_iff)
  also have "length (filter (\<lambda>j. j = nat (currentIndex s)) [0..<length (reel s)]) = 1"
    using assms by (simp add: filter_eq_upt)
  finally show ?thesis .
qed

lemma highlight_fields [simp]:
  "images (highlightCurrentImage s) = images s"
  "currentIndex (highlightCurrentImage s) = currentIndex s"
  "alerts (highlightCurrentImage s) = alerts s"
  "requests (highlightCurrentImage s) = requests s"
  "detailHidden (highlightCurrentImage s) = detailHidden s"
  "largeSrc (highlightCurrentImage s) = largeSrc s"
  by (simp_all add: highlightCurrentImage_def)

lemma display_fields [simp]:
  "images (displayThumbnails s) = images s"
  "currentIndex (displayThumbnails s) = currentIndex s"
  "alerts (displayThumbnails s) = alerts s"
  "requests (displayThumbnails s) = requests s"
  "detailHidden (displayThumbnails s) = detailHidden s"
  "largeSrc (displayThumbnails s) = largeSrc s"
  by (simp_all add: displayThumbnails_def)

lemma length_reel_display [simp]: "length (reel (displayThumbnails s)) = length (images s)"
  by (simp add: displayThumbnails_def)

lemma showImage_in:
  assumes "0 \<le> i" and "i < int (length (images s))"
  shows "showImage s i =
    Done ((highlightCurrentImage
             (s\<lparr>currentIndex := i, largeSrc := url (images s ! nat i), detailHidden := False\<rparr>))
          \<lparr>prevDisabled := (i = 0), nextDisabled := (i = int (length (images s)) - 1)\<rparr>)"
  using assms by (simp add: showImage_def js_index_in Let_def)

lemma showImage_out:
  assumes "int (length (images s)) \<le> i"
  shows "showImage s i =
    Throws (TypeError ''Cannot read properties of undefined'') (s\<lparr>currentIndex := i\<rparr>)"
  using assms by (simp add: showImage_def js_index_out Let_def)

lemma showImage_cases:
  "showImage s i =
     (if 0 \<le> i \<and> i < int (length (images s))
      then Done ((highlightCurrentImage
                    (s\<lparr>currentIndex := i, largeSrc := url (images s ! nat i),
                       detailHidden := False\<rparr>))
                 \<lparr>prevDisabled := (i = 0), nextDisabled := (i = int (length (images s)) - 1)\<rparr>)
      else Throws (TypeError ''Cannot read properties of undefined'') (s\<lparr>currentIndex := i\<rparr>))"
  by (simp add: showImage_def js_index_def Let_def)

section \<open>Facts about the handlers\<close>

lemma deleteImage_resume_ok:
  "deleteImage_resume s (Response True b) =
     (if js_splice (images s) (currentIndex s) = []
      then Done (displayThumbnails (s\<lparr>images := [], detailHidden := True\<rparr>))
      else try_catch
             (and_then
                (showImage
                   (s\<lparr>images := js_splice (images s) (currentIndex s),
                      currentIndex := min (currentIndex s)
                         (int (length (js_splice (images s) (currentIndex s))) - 1)\<rparr>)
                   (min (currentIndex s) (int (length (js_splice (images s) (currentIndex s))) - 1)))
                (\<lambda>s3. Done (displayThumbnails s3)))
             deleteImage_catch)"
  by (simp add: deleteImage_resume_def Let_def)

lemma deleteImage_start:
  assumes "0 \<le> currentIndex s" and "currentIndex s < int (length (images s))"
  shows "deleteImage s True r =
     deleteImage_resume
       (s\<lparr>requests := requests s @ [DELETE_image (public_id (images s ! nat (currentIndex s)))]\<rparr>) r"
proof -
  have "images s \<noteq> []" using assms by auto
  then show ?thesis using assms by (simp add: deleteImage_def js_index_in)
qed

lemma fetchImages_resume_ok:
  "fetchImages_resume s (Response True (Json new)) =
     (let s3 = displayThumbnails
                 ((if length (images s) < length new
                   then s\<lparr>currentIndex := int (length new) - 1, reelScrolls := reelScrolls s + 1\<rparr>
                   else s)\<lparr>images := new\<rparr>)
      in if new = [] then Done (s3\<lparr>detailHidden := True\<rparr>)
         else try_catch (showImage s3 (currentIndex s3)) fetchImages_catch)"
  by (simp add: fetchImages_resume_def Let_def)

text \<open>
  A fetch whose list is not longer than the old one keeps \<^verbatim>\<open>currentIndex\<close> as it
  is. When the index is a position of the new list the page is rendered; when it is not,
  \<^verbatim>\<open>showImage\<close> throws after \<^verbatim>\<open>images\<close> has been replaced, and the
  \<^verbatim>\<open>catch\<close> block reports a failed load.
\<close>

lemma fetchImages_in_range:
  assumes "new \<noteq> []"
    and "length (images s) < length new \<or> (0 \<le> currentIndex s \<and> currentIndex s < int (length new))"
  shows "\<exists>s'. fetchImages s (Response True (Json new)) = Done s' \<and>
           images s' = new \<and> 0 \<le> currentIndex s' \<and> currentIndex s' < int (length (images s')) \<and>
           alerts s' = alerts s"
  using assms
  by (auto simp: fetchImages_def fetchImages_resume_ok fetchImages_start_def showImage_in Let_def)

lemma fetchImages_no_clamp:
  assumes "new \<noteq> []" and "length new \<le> length (images s)"
    and "int (length new) \<le> currentIndex s"
  shows "\<exists>s'. fetchImages s (Response True (Json new)) = Done s' \<and>
           images s' = new \<and> currentIndex s' = currentIndex s \<and>
           alerts s' = alerts s @ [''Failed to load images. Refresh page.'']"
  using assms
  by (simp add: fetchImages_def fetchImages_resume_ok fetchImages_start_def showImage_out
      fetchImages_catch_def alert_def console_error_def Let_def)

text \<open>When the request itself fails, only the logs change.\<close>

lemma fetchImages_remote_failure:
  assumes "r = Rejected e \<or> r = Response False b \<or> r = Response True (NotJson e)"
  shows "fetchImages s r =
           Done (s\<lparr>requests := requests s @ [GET_images],
                   console := console s @ [''Fetch error:''],
                   alerts := alerts s @ [''Failed to load images. Refresh page.'']\<rparr>)"
  using assms
  by (auto simp: fetchImages_def fetchImages_resume_def fetchImages_start_def
      fetchImages_catch_def alert_def console_error_def)

text \<open>
  An upload with a file chosen, on a page with no global \<^verbatim>\<open>uploadBtn\<close>: whatever
  the request settles with, the \<^verbatim>\<open>finally\<close> block throws and the button stays
  disabled. On a page where the name denotes the upload button, the button is reset.
\<close>

lemma handleUpload_unbound:
  assumes "files s = file # rest"
  shows "\<exists>s'. handleUpload Unbound s r = Throws (ReferenceError ''uploadBtn is not defined'') s' \<and>
     uploadDisabled s' \<and> uploadText s' = ''Uploading...''"
  using assms
  by (auto simp: handleUpload_def try_finally_def handleUpload_finally_def handleUpload_catch_def
      alert_def console_error_def fetchImages_start_def Let_def
      split: reply.splits body.splits option.splits)

lemma handleUpload_bound:
  assumes "files s = file # rest"
  shows "\<exists>s'. handleUpload UploadButton s r = Done s' \<and>
     \<not> uploadDisabled s' \<and> uploadText s' = ''Upload''"
  using assms
  by (auto simp: handleUpload_def try_finally_def handleUpload_finally_def handleUpload_catch_def
      alert_def console_error_def fetchImages_start_def Let_def
      split: reply.splits body.splits option.splits)

section \<open>Every reachable page is rendered\<close>

lemma rendered_showImage: "rendered s \<Longrightarrow> 0 \<le> i \<Longrightarrow> rendered (after (showImage s i))"
  by (simp add: showImage_cases rendered_def)

lemma rendered_fetchImages_resume: "rendered s \<Longrightarrow> rendered (after (fetchImages_resume s r))"
  by (auto simp: fetchImages_resume_def fetchImages_catch_def alert_def console_error_def
       showImage_cases rendered_def Let_def split: reply.splits body.splits)

lemma rendered_deleteImage_resume: "rendered s \<Longrightarrow> rendered (after (deleteImage_resume s r))"
  by (auto simp: deleteImage_resume_def deleteImage_catch_def alert_def console_error_def
       showImage_cases rendered_def Let_def min_def split: reply.splits)

lemma rendered_deleteImage:
  assumes "rendered s"
  shows "rendered (after (deleteImage s c r))"
proof -
  have "rendered (s\<lparr>requests := q\<rparr>)" for q using assms by (simp add: rendered_def)
  then show ?thesis using assms
    by (auto simp: deleteImage_def dest: rendered_deleteImage_resume split: option.splits)
qed

lemma rendered_handleUpload: "rendered s \<Longrightarrow> rendered (after (handleUpload g s r))"
  by (cases g)
     (auto simp: handleUpload_def handleUpload_catch_def handleUpload_finally_def try_finally_def
       fetchImages_start_def alert_def console_error_def rendered_def Let_def
       split: list.splits reply.splits body.splits option.splits)

lemma rendered_dispatch:
  assumes "rendered s"
  shows "rendered (after (dispatch g s ev))"
proof (cases ev)
  case (Poll r)
  have "rendered (fetchImages_start s)"
    using assms by (simp add: rendered_def fetchImages_start_def)
  then show ?thesis
    using Poll by (simp add: dispatch_def fetchImages_def rendered_fetchImages_resume)
next
  case (ThumbnailClick index)
  then show ?thesis using assms by (simp add: dispatch_def rendered_showImage)
next
  case PrevClick
  then show ?thesis using assms by (simp add: dispatch_def prevBtn_click_def rendered_showImage)
next
  case NextClick
  have "0 \<le> currentIndex s" using assms by (simp add: rendered_def)
  then show ?thesis using NextClick assms
    by (simp add: dispatch_def nextBtn_click_def rendered_showImage)
next
  case (KeyDown k c r)
  have "0 \<le> currentIndex s" using assms by (simp add: rendered_def)
  then show ?thesis using KeyDown assms
    by (cases k) (simp_all add: dispatch_def keydown_def rendered_showImage rendered_deleteImage)
next
  case (DeleteClick c r)
  then show ?thesis using assms by (simp add: dispatch_def rendered_deleteImage)
next
  case (DeleteSettled r)
  then show ?thesis using assms by (simp add: dispatch_def rendered_deleteImage_resume)
next
  case (ChooseFiles fs)
  then show ?thesis using assms by (simp add: dispatch_def rendered_def)
next
  case (Submit r)
  then show ?thesis using assms by (simp add: dispatch_def rendered_handleUpload)
next
  case LargeImageError
  then show ?thesis using assms by (simp add: dispatch_def rendered_def alert_def)
qed

lemma reachable_rendered: "reachable g s \<Longrightarrow> rendered s"
proof (induction rule: reachable.induct)
  case reachable_initial
  show ?case by (simp add: rendered_def initial_def)
next
  case (reachable_step s ev)
  then show ?case by (simp add: rendered_dispatch)
qed

section \<open>The example pages, evaluated\<close>

lemmas run_defs = fetchImages_def fetchImages_start_def fetchImages_resume_def
  displayThumbnails_def highlightCurrentImage_def makeThumbnail_def showImage_def js_index_def
  js_splice_def fetchImages_catch_def alert_def console_error_def try_catch_def and_then_def
  after_def Let_def

lemma gallery_ABC_eq:
  "gallery_ABC =
     \<lparr>images = [imgA, imgB, imgC], currentIndex = 2,
      reel = [\<lparr>src = ''/a.jpg'', number = 1, selected = False\<rparr>,
              \<lparr>src = ''/b.jpg'', number = 2, selected = False\<rparr>,
              \<lparr>src = ''/c.jpg'', number = 3, selected = True\<rparr>],
      reelPlaceholder = False, reelScrolls = 1,
      largeSrc = ''/c.jpg'', detailHidden = False, prevDisabled = False, nextDisabled = True,
      files = [], uploadDisabled = False, uploadText = ''Upload'', alerts = [], console = [],
      requests = [GET_images]\<rparr>"
  by (simp add: gallery_ABC_def initial_def run_defs imgA_def imgB_def imgC_def)

lemma gallery_A_eq:
  "gallery_A =
     \<lparr>images = [imgA], currentIndex = 2,
      reel = [\<lparr>src = ''/a.jpg'', number = 1, selected = False\<rparr>],
      reelPlaceholder = False, reelScrolls = 1,
      largeSrc = ''/c.jpg'', detailHidden = False, prevDisabled = False, nextDisabled = True,
      files = [], uploadDisabled = False, uploadText = ''Upload'',
      alerts = [''Failed to load images. Refresh page.''], console = [''Fetch error:''],
      requests = [GET_images, GET_images]\<rparr>"
  by (simp add: gallery_A_def gallery_ABC_eq run_defs imgA_def)

lemma reachable_gallery_ABC: "reachable g gallery_ABC"
proof -
  have "gallery_ABC = after (dispatch g initial (Poll (Response True (Json [imgA, imgB, imgC]))))"
    by (simp add: gallery_ABC_def dispatch_def)
  then show ?thesis
    using reachable_step [OF reachable_initial, of g "Poll (Response True (Json [imgA, imgB, imgC]))"]
    by simp
qed

text \<open>A page whose index lies beyond the list is reachable: two fetches produce it.\<close>

lemma reachable_gallery_A: "reachable g gallery_A"
proof -
  have "gallery_A = after (dispatch g gallery_ABC (Poll (Response True (Json [imgA]))))"
    by (simp add: gallery_A_def dispatch_def)
  then show ?thesis
    using reachable_step [OF reachable_gallery_ABC, of g "Poll (Response True (Json [imgA]))"]
    by simp
qed

section \<open>The claims\<close>

text \<open>
  Claim C1: after a deletion or a replacement of the list, a non-empty list has
  \<^verbatim>\<open>0 <= currentIndex < images.length\<close>; in particular a fetch that returns a
  shorter non-empty list while \<^verbatim>\<open>currentIndex\<close> is at or beyond the new length
  leaves the index inside the list.

  \<^verbatim>\<open>fetchImages\<close> has no clamp: it moves the index only when the list grew. On the
  page showing the third of three images, a fetch that returns one image leaves
  \<^verbatim>\<open>images\<close> with one element and \<^verbatim>\<open>currentIndex\<close> at 2.
\<close>

theorem fetchImages_shorter_list_dangling:
  "\<exists>s'. fetchImages gallery_ABC (Response True (Json [imgA])) = Done s' \<and>
        images s' = [imgA] \<and> currentIndex s' = 2 \<and>
        \<not> currentIndex s' < int (length (images s'))"
  by (simp add: gallery_ABC_eq run_defs)

text \<open>
  Claim C2: with a file selected, the upload control is disabled during the request and
  enabled again, with its label reset, on the success path and on the failure path.

  The \<^verbatim>\<open>finally\<close> block names a constant that is declared inside the \<^verbatim>\<open>try\<close>
  block. On a page that binds no global of that name the block throws a ReferenceError,
  after a successful upload and after a failed one; the control stays disabled and keeps
  its busy label.
\<close>

theorem handleUpload_control_stays_disabled:
  "(\<exists>s'. handleUpload Unbound gallery_file (Response True (Json None))
           = Throws (ReferenceError ''uploadBtn is not defined'') s' \<and>
         uploadDisabled s' \<and> uploadText s' = ''Uploading...'' \<and> alerts s' = []) \<and>
   (\<exists>s'. handleUpload Unbound gallery_file (Response False (Json (Some ''File too large'')))
           = Throws (ReferenceError ''uploadBtn is not defined'') s' \<and>
         uploadDisabled s' \<and> uploadText s' = ''Uploading...'' \<and>
         alerts s' = [''Failed to upload: File too large''])"
  by (simp add: gallery_file_def gallery_ABC_eq handleUpload_def try_finally_def
      handleUpload_finally_def handleUpload_catch_def alert_def console_error_def
      fetchImages_start_def)

text \<open>
  Claim C3: a fetch that ends with the failure notice leaves \<^verbatim>\<open>images\<close> and
  \<^verbatim>\<open>currentIndex\<close> as they were, also when the endpoint answered and rendering
  failed.

  On the page showing the third of three images, a fetch that returns one image ends
  with the failure notice, and \<^verbatim>\<open>images\<close> has been replaced.
\<close>

theorem fetchImages_notice_after_mutation:
  "\<exists>s'. fetchImages gallery_ABC (Response True (Json [imgA])) = Done s' \<and>
        alerts s' = alerts gallery_ABC @ [''Failed to load images. Refresh page.''] \<and>
        images gallery_ABC = [imgA, imgB, imgC] \<and> images s' = [imgA] \<and>
        images s' \<noteq> images gallery_ABC"
  by (simp add: gallery_ABC_eq run_defs)

text \<open>
  Claim C4: on a list of length \<open>n \<ge> 1\<close> with a valid index \<open>i\<close>, a confirmed delete
  whose request succeeds leaves the old list without its element at \<open>i\<close>, of length
  \<open>n - 1\<close>; when that is positive the index is \<open>min i (n - 2)\<close> and the detail pane
  shows the record there; when it is zero the detail pane is hidden.
\<close>

theorem deleteImage_success:
  assumes "0 \<le> currentIndex s" and "currentIndex s < int (length (images s))"
  shows "\<exists>s'. deleteImage s True (Response True b) = Done s' \<and>
           images s' = take (nat (currentIndex s)) (images s) @
                       drop (Suc (nat (currentIndex s))) (images s) \<and>
           length (images s') = length (images s) - 1 \<and>
           alerts s' = alerts s \<and>
           (if 0 < length (images s) - 1
            then currentIndex s' = min (currentIndex s) (int (length (images s)) - 2) \<and>
                 \<not> detailHidden s' \<and>
                 largeSrc s' = url (images s' ! nat (currentIndex s'))
            else detailHidden s')"
proof -
  let ?i = "currentIndex s"
  define xs where "xs = take (nat ?i) (images s) @ drop (Suc (nat ?i)) (images s)"
  define s0 where
    "s0 = s\<lparr>requests := requests s @ [DELETE_image (public_id (images s ! nat ?i))]\<rparr>"
  have len: "length xs = length (images s) - 1" using assms by (simp add: xs_def)
  have start: "deleteImage s True (Response True b) = deleteImage_resume s0 (Response True b)"
    unfolding s0_def using assms by (rule deleteImage_start)
  have s0: "currentIndex s0 = ?i" "alerts s0 = alerts s" by (simp_all add: s0_def)
  have spl: "js_splice (images s0) ?i = xs"
    using assms by (simp add: s0_def xs_def js_splice_in)
  show ?thesis
  proof (cases "xs = []")
    case True
    define s' where "s' = displayThumbnails (s0\<lparr>images := [], detailHidden := True\<rparr>)"
    have "deleteImage_resume s0 (Response True b) = Done s'"
      using True by (simp add: deleteImage_resume_ok s0 spl s'_def)
    moreover have "images s' = xs" "detailHidden s'" "alerts s' = alerts s"
      using True by (simp_all add: s'_def s0)
    moreover have "\<not> 0 < length (images s) - 1" using True len by simp
    ultimately show ?thesis unfolding xs_def [symmetric] using start len by simp
  next
    case False
    define k where "k = min ?i (int (length xs) - 1)"
    define s2 where "s2 = s0\<lparr>images := xs, currentIndex := k\<rparr>"
    have pos: "0 < length xs" using False by simp
    have k: "0 \<le> k" "k < int (length (images s2))" "k = min ?i (int (length (images s)) - 2)"
      using assms pos len by (auto simp: k_def s2_def min_def)
    define s3 where "s3 = (highlightCurrentImage
        (s2\<lparr>currentIndex := k, largeSrc := url (images s2 ! nat k), detailHidden := False\<rparr>))
        \<lparr>prevDisabled := (k = 0), nextDisabled := (k = int (length (images s2)) - 1)\<rparr>"
    have "showImage s2 k = Done s3" unfolding s3_def using k(1,2) by (rule showImage_in)
    then have "deleteImage_resume s0 (Response True b) = Done (displayThumbnails s3)"
      using False by (simp add: deleteImage_resume_ok spl s0 k_def s2_def)
    moreover have "images s3 = xs" "currentIndex s3 = k" "\<not> detailHidden s3"
      "largeSrc s3 = url (xs ! nat k)" "alerts s3 = alerts s"
      by (simp_all add: s3_def s2_def s0)
    moreover have "0 < length (images s) - 1" using pos len by simp
    ultimately show ?thesis unfolding xs_def [symmetric] using start len k(3) by simp
  qed
qed

text \<open>The scenario of three images with the third selected: two remain, the second is shown.\<close>

theorem deleteImage_success_witness:
  "0 \<le> currentIndex gallery_ABC \<and> currentIndex gallery_ABC < int (length (images gallery_ABC)) \<and>
   (\<exists>s'. deleteImage gallery_ABC True (Response True (Json ())) = Done s' \<and>
      images s' = [imgA, imgB] \<and> currentIndex s' = 1 \<and> largeSrc s' = url imgB \<and>
      \<not> detailHidden s')"
proof -
  have h: "0 \<le> currentIndex gallery_ABC"
    "currentIndex gallery_ABC < int (length (images gallery_ABC))"
    by (simp_all add: gallery_ABC_eq)
  from deleteImage_success [OF h, of "Json ()"] obtain s' where
    "deleteImage gallery_ABC True (Response True (Json ())) = Done s'"
    "images s' = take (nat (currentIndex gallery_ABC)) (images gallery_ABC) @
        drop (Suc (nat (currentIndex gallery_ABC))) (images gallery_ABC)"
    "if 0 < length (images gallery_ABC) - 1
     then currentIndex s' = min (currentIndex gallery_ABC) (int (length (images gallery_ABC)) - 2) \<and>
          \<not> detailHidden s' \<and> largeSrc s' = url (images s' ! nat (currentIndex s'))
     else detailHidden s'"
    by blast
  then have "deleteImage gallery_ABC True (Response True (Json ())) = Done s' \<and>
      images s' = [imgA, imgB] \<and> currentIndex s' = 1 \<and> largeSrc s' = url imgB \<and>
      \<not> detailHidden s'"
    by (simp add: gallery_ABC_eq)
  then show ?thesis using h by blast
qed

text \<open>
  Claim C5: with a non-empty list and a valid index, a confirmed delete whose request is
  rejected or answered with a non-ok status changes neither \<^verbatim>\<open>images\<close> nor
  \<^verbatim>\<open>currentIndex\<close> and shows a failure notice. Only the logs of the page change.
\<close>

theorem deleteImage_failure:
  assumes "0 \<le> currentIndex s" and "currentIndex s < int (length (images s))"
    and "r = Rejected e \<or> r = Response False b"
  shows "\<exists>s'. deleteImage s True r = Done s' \<and>
           s' = s\<lparr>requests := requests s @
                               [DELETE_image (public_id (images s ! nat (currentIndex s)))],
                   console := console s @ [''Deletion error:''],
                   alerts := alerts s @ [''Failed to delete. Try again.'']\<rparr> \<and>
           images s' = images s \<and> currentIndex s' = currentIndex s \<and>
           alerts s' = alerts s @ [''Failed to delete. Try again.'']"
  using assms(3) deleteImage_start [OF assms(1,2), of r]
  by (auto simp: deleteImage_resume_def deleteImage_catch_def alert_def console_error_def)

theorem deleteImage_failure_witness:
  "0 \<le> currentIndex gallery_ABC \<and> currentIndex gallery_ABC < int (length (images gallery_ABC)) \<and>
   (\<exists>s'. deleteImage gallery_ABC True (Response False (Json ())) = Done s' \<and>
      images s' = [imgA, imgB, imgC] \<and> currentIndex s' = 2 \<and>
      alerts s' = [''Failed to delete. Try again.''])"
proof -
  have h: "0 \<le> currentIndex gallery_ABC"
    "currentIndex gallery_ABC < int (length (images gallery_ABC))"
    by (simp_all add: gallery_ABC_eq)
  have "Response False (Json ()) = Rejected (Error []) \<or>
        Response False (Json ()) = Response False (Json ())"
    by simp
  from deleteImage_failure [OF h this]
  show ?thesis using h by (auto simp: gallery_ABC_eq)
qed

text \<open>
  Claim C6: when a successful fetch returns a list one longer than the old list of
  length \<open>n\<close>, \<^verbatim>\<open>currentIndex\<close> is \<open>n\<close> afterwards, the last index of the new list.
\<close>

theorem fetchImages_grow:
  assumes "length new = length (images s) + 1"
  shows "\<exists>s'. fetchImages s (Response True (Json new)) = Done s' \<and>
           images s' = new \<and> currentIndex s' = int (length (images s)) \<and>
           currentIndex s' = int (length (images s')) - 1 \<and> alerts s' = alerts s"
proof -
  have "new \<noteq> []" using assms by auto
  then show ?thesis using assms
    by (simp add: fetchImages_def fetchImages_resume_ok fetchImages_start_def showImage_in Let_def)
qed

theorem fetchImages_grow_witness:
  "length [imgA, imgB, imgC, imgA] = length (images gallery_ABC) + 1 \<and>
   (\<exists>s'. fetchImages gallery_ABC (Response True (Json [imgA, imgB, imgC, imgA])) = Done s' \<and>
      currentIndex s' = 3 \<and> images s' = [imgA, imgB, imgC, imgA])"
proof -
  have h: "length [imgA, imgB, imgC, imgA] = length (images gallery_ABC) + 1"
    by (simp add: gallery_ABC_eq)
  from fetchImages_grow [OF h] show ?thesis by (auto simp: gallery_ABC_eq)
qed

text \<open>
  The page left by the fetch of a shorter list has one image and
  \<^verbatim>\<open>currentIndex\<close> at 2, which is not its last index 0. The next step, by button
  and by arrow key, changes nothing there, while \<^verbatim>\<open>showImage\<close> of the index
  after throws and leaves \<^verbatim>\<open>currentIndex\<close> at 3.
\<close>

theorem nextBtn_click_beyond_last_counterexample:
  "images gallery_A \<noteq> [] \<and>
   currentIndex gallery_A \<noteq> int (length (images gallery_A)) - 1 \<and>
   nextBtn_click gallery_A = Done gallery_A \<and>
   keydown gallery_A ArrowRight True (Rejected (Error []) :: unit reply) = Done gallery_A \<and>
   showImage gallery_A (currentIndex gallery_A + 1) =
     Throws (TypeError ''Cannot read properties of undefined'')
       (gallery_A\<lparr>currentIndex := 3\<rparr>) \<and>
   nextBtn_click gallery_A \<noteq> showImage gallery_A (currentIndex gallery_A + 1)"
  by (simp add: gallery_A_eq nextBtn_click_def keydown_def showImage_def js_index_def)

text \<open>
  Claim C7, as amended: on a non-empty list, whatever the index, the previous step
  changes nothing when \<^verbatim>\<open>currentIndex <= 0\<close> and is otherwise \<^verbatim>\<open>showImage\<close> of
  the index before; the next step changes nothing when \<^verbatim>\<open>currentIndex\<close> is the last
  index or beyond it and is otherwise \<^verbatim>\<open>showImage\<close> of the index after; the arrow
  keys do the same as the buttons. The claim as written has the next step be
  \<^verbatim>\<open>showImage\<close> of the index after whenever the index is not the last one.
\<close>

theorem step_guards:
  assumes "images s \<noteq> []"
  shows "prevBtn_click s =
           (if currentIndex s \<le> 0 then Done s else showImage s (currentIndex s - 1)) \<and>
         keydown s ArrowLeft c r =
           (if currentIndex s \<le> 0 then Done s else showImage s (currentIndex s - 1)) \<and>
         nextBtn_click s =
           (if int (length (images s)) - 1 \<le> currentIndex s then Done s
            else showImage s (currentIndex s + 1)) \<and>
         keydown s ArrowRight c r =
           (if int (length (images s)) - 1 \<le> currentIndex s then Done s
            else showImage s (currentIndex s + 1))"
  using assms by (auto simp: prevBtn_click_def nextBtn_click_def keydown_def)

text \<open>At the last of three images: next changes nothing, previous shows the second.\<close>

theorem step_guards_witness:
  "images gallery_ABC \<noteq> [] \<and>
   nextBtn_click gallery_ABC = Done gallery_ABC \<and>
   keydown gallery_ABC ArrowRight True (Rejected (Error []) :: unit reply) = Done gallery_ABC \<and>
   prevBtn_click gallery_ABC = showImage gallery_ABC 1 \<and>
   keydown gallery_ABC ArrowLeft True (Rejected (Error []) :: unit reply) = showImage gallery_ABC 1"
proof -
  have h: "images gallery_ABC \<noteq> []" by (simp add: gallery_ABC_eq)
  have i: "currentIndex gallery_ABC = 2" "int (length (images gallery_ABC)) = 3"
    by (simp_all add: gallery_ABC_eq)
  from step_guards [OF h, of True "Rejected (Error []) :: unit reply"]
  show ?thesis using h by (simp add: i)
qed

text \<open>
  Claim C8: an upload with no file selected issues no request, shows the validation
  notice at once and changes nothing else.
\<close>

theorem handleUpload_no_file:
  assumes "files s = []"
  shows "\<exists>s'. handleUpload g s r = Done s' \<and>
           s' = s\<lparr>alerts := alerts s @ [''Please select a file to upload'']\<rparr> \<and>
           requests s' = requests s \<and> images s' = images s \<and>
           currentIndex s' = currentIndex s \<and> uploadDisabled s' = uploadDisabled s"
  using assms by (simp add: handleUpload_def alert_def)

theorem handleUpload_no_file_witness:
  "files gallery_ABC = [] \<and>
   handleUpload Unbound gallery_ABC (Response True (Json None)) =
     Done (gallery_ABC\<lparr>alerts := [''Please select a file to upload'']\<rparr>) \<and>
   requests (gallery_ABC\<lparr>alerts := [''Please select a file to upload'']\<rparr>) = [GET_images]"
proof -
  have h: "files gallery_ABC = []" by (simp add: gallery_ABC_eq)
  from handleUpload_no_file [OF h, of Unbound "Response True (Json None)"]
  show ?thesis by (simp add: gallery_ABC_eq)
qed

text \<open>
  Claim C9: on a non-empty list, after \<^verbatim>\<open>showImage\<close> of a position \<open>i\<close> of the list
  exactly one thumbnail is marked selected, the one at position \<open>i\<close>, and \<open>i\<close> is the
  new \<^verbatim>\<open>currentIndex\<close>. The reel holds one thumbnail per image, as on every
  reachable page.
\<close>

theorem showImage_selects_exactly_one:
  assumes "length (reel s) = length (images s)" and "0 \<le> i" and "i < int (length (images s))"
  shows "\<exists>s'. showImage s i = Done s' \<and> currentIndex s' = i \<and>
           length (reel s') = length (images s') \<and>
           length (filter selected (reel s')) = 1 \<and>
           (\<forall>j. j < length (reel s') \<longrightarrow> selected (reel s' ! j) = (j = nat i))"
proof -
  let ?t = "s\<lparr>currentIndex := i, largeSrc := url (images s ! nat i), detailHidden := False\<rparr>"
  let ?s' = "(highlightCurrentImage ?t)
               \<lparr>prevDisabled := (i = 0), nextDisabled := (i = int (length (images s)) - 1)\<rparr>"
  have run: "showImage s i = Done ?s'" using assms(2,3) by (rule showImage_in)
  have one: "length (filter selected (reel ?s')) = 1"
    using count_selected_highlight [of ?t] assms by simp
  have each: "selected (reel ?s' ! j) = (j = nat i)" if "j < length (reel ?s')" for j
    using that selected_highlight [of j ?t] assms(2) by auto
  show ?thesis using run one each assms(1) by simp
qed

theorem showImage_selects_exactly_one_witness:
  "length (reel gallery_ABC) = length (images gallery_ABC) \<and>
   (\<exists>s'. showImage gallery_ABC 1 = Done s' \<and> currentIndex s' = 1 \<and>
      length (filter selected (reel s')) = 1 \<and> selected (reel s' ! 1) \<and>
      \<not> selected (reel s' ! 0) \<and> \<not> selected (reel s' ! 2))"
proof -
  have h: "length (reel gallery_ABC) = length (images gallery_ABC)" "(0::int) \<le> 1"
    "1 < int (length (images gallery_ABC))"
    by (simp_all add: gallery_ABC_eq)
  from showImage_selects_exactly_one [OF h] obtain s' where s':
    "showImage gallery_ABC 1 = Done s'" "currentIndex s' = 1"
    "length (reel s') = length (images s')"
    "length (filter selected (reel s')) = 1"
    "\<forall>j. j < length (reel s') \<longrightarrow> selected (reel s' ! j) = (j = nat 1)"
    by blast
  have "images s' = images gallery_ABC" using s'(1) h by (auto simp: showImage_cases)
  then have "length (reel s') = 3" using s'(3) by (simp add: gallery_ABC_eq)
  then have "selected (reel s' ! 1) \<and> \<not> selected (reel s' ! 0) \<and> \<not> selected (reel s' ! 2)"
    using s'(5) by simp
  then show ?thesis using s' h by blast
qed

text \<open>
  Claim C10: the guard of \<^verbatim>\<open>deleteImage\<close> tests that the list is non-empty and the
  index is not negative, not that the index is below the length. On a page with
  \<^verbatim>\<open>0 < images.length <= currentIndex\<close> a confirmed delete throws at the lookup of
  \<^verbatim>\<open>public_id\<close>, before the \<^verbatim>\<open>try\<close> block: the exception escapes the handler,
  by button and by Ctrl+Delete, no request is sent and no notice is shown.
\<close>

theorem deleteImage_dangling_uncaught:
  assumes "0 < length (images s)" and "int (length (images s)) \<le> currentIndex s"
  shows "deleteImage s True r = Throws (TypeError ''Cannot read properties of undefined'') s \<and>
         keydown s (Delete True) True r =
           Throws (TypeError ''Cannot read properties of undefined'') s"
  using assms by (auto simp: deleteImage_def keydown_def js_index_out)

text \<open>The page left by the fetch of a shorter list is such a page.\<close>

theorem deleteImage_dangling_uncaught_witness:
  "0 < length (images gallery_A) \<and> int (length (images gallery_A)) \<le> currentIndex gallery_A \<and>
   deleteImage gallery_A True (Response True (Json ())) =
     Throws (TypeError ''Cannot read properties of undefined'') gallery_A \<and>
   alerts gallery_A = [''Failed to load images. Refresh page.'']"
proof -
  have h: "0 < length (images gallery_A)"
    "int (length (images gallery_A)) \<le> currentIndex gallery_A"
    by (simp_all add: gallery_A_eq)
  from deleteImage_dangling_uncaught [OF h, of "Response True (Json ())"]
  show ?thesis using h by (simp add: gallery_A_eq)
qed

end
